theory Spec2Isabelle
  imports Main "HOL-Library.Char_ord" "HOL-Library.List_Lexorder"
begin

unbundle bit_operations_syntax

section \<open>Python strings and bytes\<close>

text \<open>
  A Python \<open>str\<close> is modelled as a \<open>string\<close>: a list of 8-bit characters, read as the
  code points 0 to 255. Cookie and header values are such strings (Starlette decodes
  them as latin-1), and so is every ASCII string. Strings with a code point above 255,
  which a URL path, a file name or a JSON body may hold, are outside the model. A
  \<open>bytes\<close> value is a list of naturals below 256.
\<close>

type_synonym bytes = "nat list"

text \<open>\<open>str.encode()\<close>: UTF-8. A code point below 128 is one byte, one from 128 to 255
  is two bytes.\<close>

definition utf8_char :: "char \<Rightarrow> bytes" where
  "utf8_char c = (if of_char c < (128::nat) then [of_char c]
                  else [192 + of_char c div 64, 128 + of_char c mod 64])"

definition str_encode :: "string \<Rightarrow> bytes" where
  "str_encode s = concat (map utf8_char s)"

definition is_ascii :: "string \<Rightarrow> bool" where
  "is_ascii s = list_all (\<lambda>c. of_char c < (128::nat)) s"

text \<open>\<open>s.startswith(p)\<close>, \<open>p in s\<close>, \<open>s.lstrip(c)\<close>, \<open>s.rstrip(c)\<close>,
  \<open>s.split(c)\<close>, \<open>c.join(parts)\<close>.\<close>

fun startswith :: "string \<Rightarrow> string \<Rightarrow> bool" where
  "startswith s [] = True"
| "startswith [] (p # ps) = False"
| "startswith (c # cs) (p # ps) = (c = p \<and> startswith cs ps)"

fun str_contains :: "string \<Rightarrow> string \<Rightarrow> bool" where
  "str_contains p [] = (p = [])"
| "str_contains p (c # cs) = (startswith (c # cs) p \<or> str_contains p cs)"

definition lstrip :: "char \<Rightarrow> string \<Rightarrow> string" where
  "lstrip c s = dropWhile (\<lambda>x. x = c) s"

definition rstrip :: "char \<Rightarrow> string \<Rightarrow> string" where
  "rstrip c s = rev (dropWhile (\<lambda>x. x = c) (rev s))"

fun split_on :: "char \<Rightarrow> string \<Rightarrow> string list" where
  "split_on c [] = [[]]"
| "split_on c (x # xs) =
     (if x = c then [] # split_on c xs
      else (case split_on c xs of
              [] \<Rightarrow> [[x]]
            | p # ps \<Rightarrow> (x # p) # ps))"

fun str_join :: "string \<Rightarrow> string list \<Rightarrow> string" where
  "str_join sep [] = []"
| "str_join sep [p] = p"
| "str_join sep (p # q # ps) = p @ sep @ str_join sep (q # ps)"

text \<open>\<open>s.rsplit(c, 1)\<close>: split once, at the last occurrence of \<open>c\<close>; a string without
  \<open>c\<close> comes back as the only part.\<close>

definition rsplit1 :: "char \<Rightarrow> string \<Rightarrow> string list" where
  "rsplit1 c s =
     (if c \<in> set s
      then [rev (tl (dropWhile (\<lambda>x. x \<noteq> c) (rev s))), rev (takeWhile (\<lambda>x. x \<noteq> c) (rev s))]
      else [s])"

text \<open>\<open>os.path.join(a, b)\<close> on POSIX.\<close>

definition path_join :: "string \<Rightarrow> string \<Rightarrow> string" where
  "path_join a b =
     (if startswith b ''/'' then b
      else if a = [] \<or> last a = CHR ''/'' then a @ b
      else a @ ''/'' @ b)"

section \<open>SHA-256 and HMAC (hashlib, hmac)\<close>

text \<open>
  The hash the server calls through \<open>hashlib.sha256\<close> and \<open>hmac.new\<close>, after FIPS 180-4
  and RFC 2104. A 32-bit word is a natural number, with the wrap-around written out.
\<close>

type_synonym sha_state = "nat \<times> nat \<times> nat \<times> nat \<times> nat \<times> nat \<times> nat \<times> nat"

definition K256_0 :: "nat list" where
  "K256_0 = [0x428a2f98, 0x71374491, 0xb5c0fbcf, 0xe9b5dba5, 0x3956c25b, 0x59f111f1, 0x923f82a4, 0xab1c5ed5]"

definition K256_1 :: "nat list" where
  "K256_1 = [0xd807aa98, 0x12835b01, 0x243185be, 0x550c7dc3, 0x72be5d74, 0x80deb1fe, 0x9bdc06a7, 0xc19bf174]"

definition K256_2 :: "nat list" where
  "K256_2 = [0xe49b69c1, 0xefbe4786, 0x0fc19dc6, 0x240ca1cc, 0x2de92c6f, 0x4a7484aa, 0x5cb0a9dc, 0x76f988da]"

definition K256_3 :: "nat list" where
  "K256_3 = [0x983e5152, 0xa831c66d, 0xb00327c8, 0xbf597fc7, 0xc6e00bf3, 0xd5a79147, 0x06ca6351, 0x14292967]"

definition K256_4 :: "nat list" where
  "K256_4 = [0x27b70a85, 0x2e1b2138, 0x4d2c6dfc, 0x53380d13, 0x650a7354, 0x766a0abb, 0x81c2c92e, 0x92722c85]"

definition K256_5 :: "nat list" where
  "K256_5 = [0xa2bfe8a1, 0xa81a664b, 0xc24b8b70, 0xc76c51a3, 0xd192e819, 0xd6990624, 0xf40e3585, 0x106aa070]"

definition K256_6 :: "nat list" where
  "K256_6 = [0x19a4c116, 0x1e376c08, 0x2748774c, 0x34b0bcb5, 0x391c0cb3, 0x4ed8aa4a, 0x5b9cca4f, 0x682e6ff3]"

definition K256_7 :: "nat list" where
  "K256_7 = [0x748f82ee, 0x78a5636f, 0x84c87814, 0x8cc70208, 0x90befffa, 0xa4506ceb, 0xbef9a3f7, 0xc67178f2]"

definition K256 :: "nat list" where
  "K256 = K256_0 @ K256_1 @ K256_2 @ K256_3 @ K256_4 @ K256_5 @ K256_6 @ K256_7"

definition H256 :: sha_state where
  "H256 = (0x6a09e667, 0xbb67ae85, 0x3c6ef372, 0xa54ff53a,
           0x510e527f, 0x9b05688c, 0x1f83d9ab, 0x5be0cd19)"

definition add32 :: "nat \<Rightarrow> nat \<Rightarrow> nat" where
  "add32 x y = (x + y) mod 4294967296"

definition not32 :: "nat \<Rightarrow> nat" where
  "not32 x = 4294967295 - x"

text \<open>Rotation of a 32-bit word to the right: the high bits move down, the low
  \<open>n\<close> bits move to the top.\<close>

definition rotr :: "nat \<Rightarrow> nat \<Rightarrow> nat" where
  "rotr n x = drop_bit n x + push_bit (32 - n) (take_bit n x)"

definition Ch :: "nat \<Rightarrow> nat \<Rightarrow> nat \<Rightarrow> nat" where
  "Ch x y z = (x AND y) XOR (not32 x AND z)"

definition Maj :: "nat \<Rightarrow> nat \<Rightarrow> nat \<Rightarrow> nat" where
  "Maj x y z = (x AND y) XOR (x AND z) XOR (y AND z)"

definition bsig0 :: "nat \<Rightarrow> nat" where
  "bsig0 x = rotr 2 x XOR rotr 13 x XOR rotr 22 x"

definition bsig1 :: "nat \<Rightarrow> nat" where
  "bsig1 x = rotr 6 x XOR rotr 11 x XOR rotr 25 x"

definition ssig0 :: "nat \<Rightarrow> nat" where
  "ssig0 x = rotr 7 x XOR rotr 18 x XOR drop_bit 3 x"

definition ssig1 :: "nat \<Rightarrow> nat" where
  "ssig1 x = rotr 17 x XOR rotr 19 x XOR drop_bit 10 x"

text \<open>Big-endian words of a block, and the bytes of a word.\<close>

fun words_of :: "bytes \<Rightarrow> nat list" where
  "words_of (a # b # c # d # rest) =
     (a * 16777216 + b * 65536 + c * 256 + d) # words_of rest"
| "words_of _ = []"

definition bytes_of_u32 :: "nat \<Rightarrow> bytes" where
  "bytes_of_u32 w = [w div 16777216 mod 256, w div 65536 mod 256, w div 256 mod 256, w mod 256]"

text \<open>
  The message schedule is kept as a window of sixteen words: round \<open>t\<close> uses the first
  word \<open>W\<^sub>t\<close>, and \<open>W\<^bsub>t+16\<^esub>\<close> is appended for later rounds.
\<close>

definition next_w :: "nat list \<Rightarrow> nat" where
  "next_w win = add32 (add32 (add32 (ssig1 (win ! 14)) (win ! 9)) (ssig0 (win ! 1))) (win ! 0)"

fun temp1 :: "nat \<Rightarrow> nat \<Rightarrow> sha_state \<Rightarrow> nat" where
  "temp1 k w (a, b, c, d, e, f, g, h) =
     add32 (add32 (add32 (add32 h (bsig1 e)) (Ch e f g)) k) w"

fun temp2 :: "sha_state \<Rightarrow> nat" where
  "temp2 (a, b, c, d, e, f, g, h) = add32 (bsig0 a) (Maj a b c)"

fun round256 :: "nat \<Rightarrow> nat \<Rightarrow> sha_state \<Rightarrow> sha_state" where
  "round256 t1 t2 (a, b, c, d, e, f, g, h) = (add32 t1 t2, a, b, c, add32 d t1, e, f, g)"

fun rounds :: "nat list \<Rightarrow> nat list \<times> sha_state \<Rightarrow> nat list \<times> sha_state" where
  "rounds [] ws = ws"
| "rounds (k # ks) (win, s) =
     rounds ks (tl win @ [next_w win], round256 (temp1 k (hd win) s) (temp2 s) s)"

fun add_state :: "sha_state \<Rightarrow> sha_state \<Rightarrow> sha_state" where
  "add_state (a, b, c, d, e, f, g, h) (a', b', c', d', e', f', g', h') =
     (add32 a a', add32 b b', add32 c c', add32 d d',
      add32 e e', add32 f f', add32 g g', add32 h h')"

definition compress :: "sha_state \<Rightarrow> bytes \<Rightarrow> sha_state" where
  "compress hs block = add_state hs (snd (rounds K256 (words_of block, hs)))"

definition length_bytes :: "nat \<Rightarrow> bytes" where
  "length_bytes bits = map (\<lambda>i. bits div 256 ^ i mod 256) [7, 6, 5, 4, 3, 2, 1, 0]"

definition pad :: "bytes \<Rightarrow> bytes" where
  "pad m = m @ [0x80] @ replicate ((119 - length m mod 64) mod 64) 0 @ length_bytes (8 * length m)"

fun blocks :: "bytes \<Rightarrow> bytes list" where
  "blocks bs = (if bs = [] then [] else take 64 bs # blocks (drop 64 bs))"

declare blocks.simps [simp del]

fun state_bytes :: "sha_state \<Rightarrow> bytes" where
  "state_bytes (a, b, c, d, e, f, g, h) = concat (map bytes_of_u32 [a, b, c, d, e, f, g, h])"

definition sha256 :: "bytes \<Rightarrow> bytes" where
  "sha256 m = state_bytes (foldl compress H256 (blocks (pad m)))"

definition hmac_key :: "bytes \<Rightarrow> bytes" where
  "hmac_key k = (if length k > 64 then sha256 k @ replicate 32 0
                 else k @ replicate (64 - length k) 0)"

definition hmac_sha256 :: "bytes \<Rightarrow> bytes \<Rightarrow> bytes" where
  "hmac_sha256 k m =
     sha256 (map (\<lambda>b. b XOR 0x5c) (hmac_key k) @
             sha256 (map (\<lambda>b. b XOR 0x36) (hmac_key k) @ m))"

definition hexdigit :: "nat \<Rightarrow> char" where
  "hexdigit n = ''0123456789abcdef'' ! n"

definition hex :: "bytes \<Rightarrow> string" where
  "hex bs = concat (map (\<lambda>b. [hexdigit (b div 16), hexdigit (b mod 16)]) bs)"

text \<open>\<open>hmac.new(key, msg, hashlib.sha256).hexdigest()\<close>\<close>

definition hmac_hexdigest :: "bytes \<Rightarrow> bytes \<Rightarrow> string" where
  "hmac_hexdigest key msg = hex (hmac_sha256 key msg)"

text \<open>
  \<open>hmac.compare_digest(a, b)\<close> on two \<open>str\<close> arguments: it raises \<open>TypeError\<close> unless
  both are ASCII, and otherwise says whether they are equal.
\<close>

datatype py_error = TypeError | ValueError | OSError string

definition compare_digest :: "string \<Rightarrow> string \<Rightarrow> py_error + bool" where
  "compare_digest a b = (if is_ascii a \<and> is_ascii b then Inr (a = b) else Inl TypeError)"

section \<open>Configuration\<close>

record config =
  data_dir :: string
  repo_dir :: string
  password_hash :: string
  webhook_secret :: string
  port :: int

section \<open>Session tokens\<close>

text \<open>
  \<open>SESSION_SECRET\<close> is drawn once per process (\<open>secrets.token_hex(32)\<close>) and the nonce
  once per token (\<open>secrets.token_hex(16)\<close>); both are parameters here.
\<close>

definition token_sig :: "string \<Rightarrow> string \<Rightarrow> string" where
  "token_sig secret data = take 16 (hmac_hexdigest (str_encode secret) (str_encode data))"

definition create_session_token :: "string \<Rightarrow> string \<Rightarrow> string" where
  "create_session_token secret data = data @ ''.'' @ token_sig secret data"

definition verify_session_token :: "string \<Rightarrow> string option \<Rightarrow> py_error + bool" where
  "verify_session_token secret token =
     (case token of
        None \<Rightarrow> Inr False
      | Some t \<Rightarrow>
          if t = [] \<or> CHR ''.'' \<notin> set t then Inr False
          else (case rsplit1 CHR ''.'' t of
                  [data, sg] \<Rightarrow> compare_digest sg (token_sig secret data)
                | _ \<Rightarrow> Inl ValueError))"

definition get_session_token :: "(string \<rightharpoonup> string) \<Rightarrow> string option" where
  "get_session_token cookies = cookies ''session''"

definition hexchars :: "char set" where
  "hexchars = set ''0123456789abcdef''"

section \<open>Responses and requests\<close>

record set_cookie =
  cookie_key :: string
  cookie_value :: string
  cookie_path :: string
  httponly :: bool
  secure :: bool
  samesite :: string
  max_age :: nat

text \<open>
  The Starlette response classes the handlers build: a file transfer, an HTML page, a
  plain response with its body and status code, and a JSON response \<open>{"ok": b}\<close> with
  its status code and the cookie it sets, if any.
\<close>

datatype response =
    FileResponse string
  | HTMLResponse string
  | Response string nat
  | JSONResponse bool nat "set_cookie option"

datatype json =
    JNull
  | JBool bool
  | JNumber string
  | JString string
  | JArray "json list"
  | JObject "(string \<times> json) list"

text \<open>
  A request: its URL path, cookies and headers, the raw body, and what
  \<open>request.json()\<close> gives for that body (\<open>None\<close> when it raises: no body, or a body
  that is not JSON).
\<close>

record request =
  url_path :: string
  cookies :: "string \<rightharpoonup> string"
  headers :: "string \<rightharpoonup> string"
  body :: bytes
  json_body :: "json option"

section \<open>Login\<close>

definition login_html :: "config \<Rightarrow> string" where
  "login_html cfg = path_join (path_join (repo_dir cfg) ''cdn'') ''login.html''"

text \<open>
  The \<open>try\<close> block of \<open>login\<close>: \<open>data.get("hash", "")\<close> on the parsed body. A parse
  failure, and the \<open>AttributeError\<close> of a JSON value that is no object, are caught and
  give the empty string. Of a repeated key, the parser keeps the last value.
\<close>

definition received_hash :: "json option \<Rightarrow> json" where
  "received_hash parsed =
     (case parsed of
        Some (JObject kvs) \<Rightarrow>
          (case map_of (rev kvs) ''hash'' of Some v \<Rightarrow> v | None \<Rightarrow> JString [])
      | _ \<Rightarrow> JString [])"

text \<open>\<open>hmac.compare_digest\<close> with a first argument that need not be a \<open>str\<close>.\<close>

definition compare_digest_json :: "json \<Rightarrow> string \<Rightarrow> py_error + bool" where
  "compare_digest_json v b = (case v of JString a \<Rightarrow> compare_digest a b | _ \<Rightarrow> Inl TypeError)"

definition session_cookie :: "string \<Rightarrow> set_cookie" where
  "session_cookie token =
     \<lparr>cookie_key = ''session'', cookie_value = token, cookie_path = ''/'', httponly = True,
      secure = True, samesite = ''none'', max_age = 31536000\<rparr>"

definition login :: "config \<Rightarrow> string \<Rightarrow> string \<Rightarrow> request \<Rightarrow> py_error + response" where
  "login cfg secret nonce req =
     (case compare_digest_json (received_hash (json_body req)) (password_hash cfg) of
        Inl e \<Rightarrow> Inl e
      | Inr True \<Rightarrow>
          Inr (JSONResponse True 200 (Some (session_cookie (create_session_token secret nonce))))
      | Inr False \<Rightarrow> Inr (JSONResponse False 401 None))"

section \<open>Webhook\<close>

text \<open>
  The processes the handler starts are outside the program: \<open>proc_env\<close> says how each
  call ends. \<open>subprocess.run\<close> raises (\<open>Inl\<close>, with the exception's text) or completes;
  the fetch runs with \<open>check=True\<close>, so its non-zero exit is among the exceptions; the
  reset completes with a return code and its stderr. \<open>subprocess.Popen\<close> raises or has
  started the process. The handler's effects are logged: \<open>Run\<close> for each
  \<open>subprocess.run\<close> call made, \<open>Spawn\<close> for a process \<open>Popen\<close> started.
\<close>

record proc_env =
  git_fetch :: "string + unit"
  git_reset :: "string + int \<times> string"
  popen :: "string + unit"

datatype effect = Run "string list" | Spawn "string list"

definition fetch_cmd :: "config \<Rightarrow> string list" where
  "fetch_cmd cfg = [''git'', ''-C'', repo_dir cfg, ''fetch'', ''origin'']"

definition reset_cmd :: "config \<Rightarrow> string list" where
  "reset_cmd cfg = [''git'', ''-C'', repo_dir cfg, ''reset'', ''--hard'', ''origin/main'']"

definition start_script :: "config \<Rightarrow> string" where
  "start_script cfg = path_join (path_join (repo_dir cfg) ''cdn'') ''start-cdn.sh''"

text \<open>The \<open>try\<close> block of \<open>webhook\<close>.\<close>

definition redeploy :: "config \<Rightarrow> proc_env \<Rightarrow> response \<times> effect list" where
  "redeploy cfg env =
     (case git_fetch env of
        Inl e \<Rightarrow> (Response (''Error: '' @ e) 500, [Run (fetch_cmd cfg)])
      | Inr _ \<Rightarrow>
         (case git_reset env of
            Inl e \<Rightarrow> (Response (''Error: '' @ e) 500, [Run (fetch_cmd cfg), Run (reset_cmd cfg)])
          | Inr (returncode, stderr) \<Rightarrow>
              if returncode \<noteq> 0
              then (Response (''Git reset failed: '' @ stderr) 500,
                    [Run (fetch_cmd cfg), Run (reset_cmd cfg)])
              else (case popen env of
                      Inl e \<Rightarrow>
                        (Response (''Error: '' @ e) 500,
                         [Run (fetch_cmd cfg), Run (reset_cmd cfg)])
                    | Inr _ \<Rightarrow>
                        (Response ''OK, restarting...'' 200,
                         [Run (fetch_cmd cfg), Run (reset_cmd cfg),
                          Spawn [start_script cfg]]))))"

definition sig_header :: "request \<Rightarrow> string" where
  "sig_header req = (case headers req ''X-Hub-Signature-256'' of None \<Rightarrow> [] | Some h \<Rightarrow> h)"

definition expected_signature :: "config \<Rightarrow> request \<Rightarrow> string" where
  "expected_signature cfg req =
     ''sha256='' @ hmac_hexdigest (str_encode (webhook_secret cfg)) (body req)"

definition webhook :: "config \<Rightarrow> proc_env \<Rightarrow> request \<Rightarrow> (py_error + response) \<times> effect list" where
  "webhook cfg env req =
     (if webhook_secret cfg = [] \<or> repo_dir cfg = []
      then (Inr (Response ''Webhook not configured'' 500), [])
      else if \<not> startswith (sig_header req) ''sha256=''
      then (Inr (Response ''Missing signature'' 401), [])
      else (case compare_digest (sig_header req) (expected_signature cfg req) of
              Inl e \<Rightarrow> (Inl e, [])
            | Inr False \<Rightarrow> (Inr (Response ''Invalid signature'' 401), [])
            | Inr True \<Rightarrow> (Inr (fst (redeploy cfg env)), snd (redeploy cfg env))))"

section \<open>Serving files\<close>

text \<open>
  The file system is outside the program: \<open>os.path.isdir\<close>, \<open>os.path.isfile\<close> and
  \<open>os.listdir\<close> are parameters, and \<open>os.listdir\<close> may raise.
\<close>

record filesystem =
  isdir :: "string \<Rightarrow> bool"
  isfile :: "string \<Rightarrow> bool"
  listdir :: "string \<Rightarrow> py_error + string list"

text \<open>
  \<open>os.path.normpath\<close> on POSIX. \<open>norm_step\<close> is the body of its loop over the
  components; \<open>initial_slashes\<close> counts the leading slashes it keeps (0, 1 or 2).
\<close>

definition initial_slashes :: "string \<Rightarrow> nat" where
  "initial_slashes path =
     (if startswith path ''/''
      then (if startswith path ''//'' \<and> \<not> startswith path ''///'' then 2 else 1)
      else 0)"

definition norm_step :: "nat \<Rightarrow> string list \<Rightarrow> string \<Rightarrow> string list" where
  "norm_step slashes new_comps part =
     (if part = [] \<or> part = ''.'' then new_comps
      else if part \<noteq> ''..'' \<or> (slashes = 0 \<and> new_comps = [])
              \<or> (new_comps \<noteq> [] \<and> last new_comps = ''..'')
      then new_comps @ [part]
      else if new_comps \<noteq> [] then butlast new_comps
      else new_comps)"

definition normpath :: "string \<Rightarrow> string" where
  "normpath path =
     (if path = [] then ''.''
      else if replicate (initial_slashes path) CHR ''/'' @
              str_join ''/'' (foldl (norm_step (initial_slashes path)) [] (split_on CHR ''/'' path))
              = []
      then ''.''
      else replicate (initial_slashes path) CHR ''/'' @
             str_join ''/'' (foldl (norm_step (initial_slashes path)) [] (split_on CHR ''/'' path)))"

definition safe_path :: "string \<Rightarrow> string" where
  "safe_path path = normpath (lstrip CHR ''/'' path)"

definition full_path :: "config \<Rightarrow> string \<Rightarrow> string" where
  "full_path cfg path =
     (if safe_path path \<noteq> [] then path_join (data_dir cfg) (safe_path path) else data_dir cfg)"

definition listing_dirs :: "filesystem \<Rightarrow> string \<Rightarrow> string list \<Rightarrow> string list" where
  "listing_dirs fs dir names =
     filter (\<lambda>e. isdir fs (path_join dir e) \<and> \<not> startswith e ''.'') (sort names)"

definition listing_files :: "filesystem \<Rightarrow> string \<Rightarrow> string list \<Rightarrow> string list" where
  "listing_files fs dir names =
     filter (\<lambda>e. isfile fs (path_join dir e) \<and> \<not> startswith e ''.'') (sort names)"

definition dquote :: string where
  "dquote = [CHR 0x22]"

definition dir_item :: "string \<Rightarrow> string \<Rightarrow> string" where
  "dir_item path d =
     ''<li><a href='' @ dquote @ rstrip CHR ''/'' path @ ''/'' @ d @ ''/'' @ dquote @ ''>''
       @ d @ ''/</a></li>''"

definition file_item :: "string \<Rightarrow> string \<Rightarrow> string" where
  "file_item path f =
     ''<li><a href='' @ dquote @ rstrip CHR ''/'' path @ ''/'' @ f @ dquote @ ''>''
       @ f @ ''</a></li>''"

definition listing_html :: "string \<Rightarrow> string list \<Rightarrow> string list \<Rightarrow> string" where
  "listing_html path dirs files =
     ''<html><body><h1>'' @ path @ ''</h1><ul>'' @ concat (map (dir_item path) dirs)
       @ concat (map (file_item path) files) @ ''</ul></body></html>''"

text \<open>\<open>resolve\<close> is \<open>serve_files\<close> from its traversal check on, past the token check.\<close>

definition resolve :: "config \<Rightarrow> filesystem \<Rightarrow> string \<Rightarrow> py_error + response" where
  "resolve cfg fs path =
     (if str_contains ''..'' (safe_path path) then Inr (Response ''Forbidden'' 403)
      else if isdir fs (full_path cfg path)
      then (case listdir fs (full_path cfg path) of
              Inl e \<Rightarrow> Inl e
            | Inr names \<Rightarrow>
                Inr (HTMLResponse (listing_html path
                       (listing_dirs fs (full_path cfg path) names)
                       (listing_files fs (full_path cfg path) names))))
      else if isfile fs (full_path cfg path) then Inr (FileResponse (full_path cfg path))
      else Inr (Response ''Not found'' 404))"

definition serve_files ::
  "config \<Rightarrow> filesystem \<Rightarrow> string \<Rightarrow> request \<Rightarrow> py_error + response" where
  "serve_files cfg fs secret req =
     (case verify_session_token secret (get_session_token (cookies req)) of
        Inl e \<Rightarrow> Inl e
      | Inr False \<Rightarrow>
          if url_path req = ''/'' then Inr (FileResponse (login_html cfg))
          else Inr (Response ''Unauthorized'' 401)
      | Inr True \<Rightarrow> resolve cfg fs (url_path req))"

text \<open>
  A path climbs above the root when, walking its components from the root, a \<open>..\<close>
  comes at depth 0. \<open>climbs d\<close> walks the components from depth \<open>d\<close>; empty
  components and \<open>.\<close> stay in place.
\<close>

fun climbs :: "nat \<Rightarrow> string list \<Rightarrow> bool" where
  "climbs d [] = False"
| "climbs d (c # cs) =
     (if c = [] \<or> c = ''.'' then climbs d cs
      else if c = ''..'' then d = 0 \<or> climbs (d - 1) cs
      else climbs (Suc d) cs)"

section \<open>Example inputs\<close>

definition example_secret :: string where
  "example_secret = ''0123456789abcdef0123456789abcdef0123456789abcdef0123456789abcdef''"

definition other_secret :: string where
  "other_secret = ''fedcba9876543210fedcba9876543210fedcba9876543210fedcba9876543210''"

definition example_config :: config where
  "example_config =
     \<lparr>data_dir = ''/data'', repo_dir = ''/repo'', password_hash = ''5e884898'',
      webhook_secret = example_secret, port = 8888\<rparr>"

definition example_env :: proc_env where
  "example_env = \<lparr>git_fetch = Inr (), git_reset = Inr (0, []), popen = Inr ()\<rparr>"

definition example_request :: request where
  "example_request =
     \<lparr>url_path = ''/'', cookies = Map.empty, headers = Map.empty, body = [],
      json_body = None\<rparr>"

text \<open>
  A sandbox root \<open>/data\<close> with a subdirectory \<open>music\<close>, the files \<open>b\<close>,
  \<open>notes.txt\<close> and \<open>.env\<close>, and a child \<open>pipe\<close> that is neither a directory nor a
  regular file (a FIFO, say, or a dangling symbolic link). The root is reached as
  \<open>/data/.\<close> too.
\<close>

definition example_fs :: filesystem where
  "example_fs =
     \<lparr>isdir = (\<lambda>p. p \<in> {''/data'', ''/data/.'', ''/data/music'', ''/data/./music''}),
      isfile = (\<lambda>p. p \<in> {''/data/b'', ''/data/./b'', ''/data/notes.txt'',
                            ''/data/./notes.txt'', ''/data/.env'', ''/data/./.env''}),
      listdir = (\<lambda>p. if p \<in> {''/data'', ''/data/.''}
                        then Inr [''notes.txt'', ''pipe'', ''music'', ''b'', ''.env'']
                        else if p \<in> {''/data/music'', ''/data/./music''} then Inr []
                        else Inl (OSError ''No such file or directory''))\<rparr>"

text \<open>A webhook delivery with body \<open>a.b\<close> and the signature of that body under
  \<open>example_secret\<close>.\<close>

definition signed_delivery :: request where
  "signed_delivery =
     example_request
       \<lparr>url_path := ''/webhook'',
        headers := [''X-Hub-Signature-256'' \<mapsto>
          ''sha256=c8855c8b56b06f016197ab20c6772853147c31993c6b7117c1bce71d7959fb77''],
        body := str_encode ''a.b''\<rparr>"

section \<open>Facts about strings and digests\<close>

lemma rsplit1_append:
  assumes "c \<notin> set sg"
  shows "rsplit1 c (d @ c # sg) = [d, sg]"
proof -
  have all: "\<And>x. x \<in> set (rev sg) \<Longrightarrow> x \<noteq> c"
    using assms by auto
  have "rev (d @ c # sg) = rev sg @ c # rev d"
    by simp
  moreover have "takeWhile (\<lambda>x. x \<noteq> c) (rev sg @ c # rev d) = rev sg"
    using takeWhile_append2 [of "rev sg" "\<lambda>x. x \<noteq> c" "c # rev d"] all by simp
  moreover have "dropWhile (\<lambda>x. x \<noteq> c) (rev sg @ c # rev d) = c # rev d"
    using dropWhile_append2 [of "rev sg" "\<lambda>x. x \<noteq> c" "c # rev d"] all by simp
  ultimately show ?thesis
    by (simp add: rsplit1_def)
qed

lemma rsplit1_parts:
  assumes "c \<in> set t"
  shows "\<exists>d sg. rsplit1 c t = [d, sg] \<and> t = d @ c # sg \<and> c \<notin> set sg"
proof -
  from assms obtain d sg where t: "t = d @ c # sg" and "c \<notin> set sg"
    by (meson split_list_last)
  then show ?thesis
    using rsplit1_append [of c sg d] by blast
qed

lemma hexdigit_hexchars:
  assumes "n < 16"
  shows "hexdigit n \<in> hexchars"
proof -
  have "list_all (\<lambda>n. hexdigit n \<in> set ''0123456789abcdef'') [0..<16]"
    by code_simp
  then have "\<forall>n \<in> set [0..<16]. hexdigit n \<in> hexchars"
    by (simp only: list_all_iff hexchars_def)
  with assms show ?thesis
    by simp
qed

lemma length_hex: "length (hex bs) = 2 * length bs"
  by (induction bs) (simp_all add: hex_def)

lemma set_hex: "\<forall>b \<in> set bs. b < 256 \<Longrightarrow> set (hex bs) \<subseteq> hexchars"
proof (induction bs)
  case Nil
  then show ?case by (simp add: hex_def)
next
  case (Cons b bs)
  then have "b < 16 * 16"
    by simp
  then have "b div 16 < 16" "b mod 16 < 16"
    by (simp_all add: less_mult_imp_div_less)
  then show ?case
    using Cons by (simp add: hex_def hexdigit_hexchars)
qed

lemma length_state_bytes: "length (state_bytes s) = 32"
  by (cases s rule: state_bytes.cases) (simp add: bytes_of_u32_def)

lemma state_bytes_bound: "\<forall>b \<in> set (state_bytes s). b < 256"
  by (cases s rule: state_bytes.cases) (simp add: bytes_of_u32_def)

lemma length_hmac_hexdigest: "length (hmac_hexdigest k m) = 64"
  by (simp add: hmac_hexdigest_def hmac_sha256_def sha256_def length_hex length_state_bytes)

lemma set_hmac_hexdigest: "set (hmac_hexdigest k m) \<subseteq> hexchars"
  by (simp add: hmac_hexdigest_def hmac_sha256_def sha256_def set_hex state_bytes_bound)

lemma length_token_sig: "length (token_sig secret data) = 16"
  by (simp add: token_sig_def length_hmac_hexdigest)

lemma set_token_sig: "set (token_sig secret data) \<subseteq> hexchars"
  using set_take_subset set_hmac_hexdigest unfolding token_sig_def by fast

lemma hexchars_ascii: "set s \<subseteq> hexchars \<Longrightarrow> is_ascii s"
  by (auto simp: is_ascii_def hexchars_def list_all_iff)

lemma hexchars_no_dot: "set s \<subseteq> hexchars \<Longrightarrow> CHR ''.'' \<notin> set s"
  by (auto simp: hexchars_def)

lemma is_ascii_token_sig: "is_ascii (token_sig secret data)"
  by (rule hexchars_ascii) (rule set_token_sig)

lemma no_dot_token_sig: "CHR ''.'' \<notin> set (token_sig secret data)"
  by (rule hexchars_no_dot) (rule set_token_sig)

lemma compare_digest_refl: "is_ascii a \<Longrightarrow> compare_digest a a = Inr True"
  by (simp add: compare_digest_def)

lemma is_ascii_expected_signature: "is_ascii (expected_signature cfg req)"
proof -
  have "is_ascii ''sha256=''"
    by (simp add: is_ascii_def)
  moreover have "is_ascii (hmac_hexdigest (str_encode (webhook_secret cfg)) (body req))"
    by (rule hexchars_ascii) (rule set_hmac_hexdigest)
  ultimately show ?thesis
    unfolding expected_signature_def is_ascii_def by simp
qed

lemma redeploy_spawn:
  "(\<exists>cmd. Spawn cmd \<in> set (snd (redeploy cfg env))) =
     (fst (redeploy cfg env) = Response ''OK, restarting...'' 200)"
  by (auto simp: redeploy_def split: sum.splits prod.splits)

lemma redeploy_ok:
  "fst (redeploy cfg env) = Response ''OK, restarting...'' 200 \<longleftrightarrow>
     git_fetch env = Inr () \<and> (\<exists>stderr. git_reset env = Inr (0, stderr)) \<and> popen env = Inr ()"
  by (auto simp: redeploy_def split: sum.splits prod.splits)

lemma redeploy_not_invalid: "fst (redeploy cfg env) \<noteq> Response ''Invalid signature'' 401"
  by (auto simp: redeploy_def split: sum.splits prod.splits)

subsection \<open>Session tokens\<close>

lemma verify_create:
  "verify_session_token secret (Some (create_session_token secret data)) = Inr True"
proof -
  have "rsplit1 CHR ''.'' (data @ CHR ''.'' # token_sig secret data) = [data, token_sig secret data]"
    by (rule rsplit1_append) (rule no_dot_token_sig)
  then show ?thesis
    by (simp add: verify_session_token_def create_session_token_def
        compare_digest_refl is_ascii_token_sig)
qed

lemma verify_True_created:
  assumes "verify_session_token secret tok = Inr True"
  shows "\<exists>data. tok = Some (create_session_token secret data)"
proof -
  from assms obtain t where tok: "tok = Some t" and dot: "CHR ''.'' \<in> set t"
    by (auto simp: verify_session_token_def split: option.splits if_splits)
  from rsplit1_parts [OF dot] obtain d sg where
    parts: "rsplit1 CHR ''.'' t = [d, sg]" and t: "t = d @ CHR ''.'' # sg"
    by blast
  have "t \<noteq> []"
    using dot by auto
  with assms tok dot parts have "compare_digest sg (token_sig secret d) = Inr True"
    by (simp add: verify_session_token_def)
  then have "sg = token_sig secret d"
    by (simp add: compare_digest_def split: if_splits)
  with t tok show ?thesis
    by (auto simp: create_session_token_def)
qed

lemma verify_no_dot:
  "CHR ''.'' \<notin> set t \<Longrightarrow> verify_session_token secret (Some t) = Inr False"
  by (simp add: verify_session_token_def)

lemma is_ascii_set: "is_ascii s = (\<forall>c \<in> set s. of_char c < (128::nat))"
  by (simp add: is_ascii_def list_all_iff)

lemma verify_altered_sig:
  assumes i: "i < 16" and c: "c \<noteq> token_sig secret data ! i" and a: "of_char c < (128::nat)"
  shows "verify_session_token secret
           (Some (data @ ''.'' @ (token_sig secret data)[i := c])) = Inr False"
proof -
  let ?sg = "token_sig secret data"
  let ?t = "data @ ''.'' @ ?sg[i := c]"
  have len: "length ?sg = 16"
    by (rule length_token_sig)
  have dot_t: "CHR ''.'' \<in> set ?t" and ne: "?t \<noteq> []"
    by simp_all
  show ?thesis
  proof (cases "c = CHR ''.''")
    case False
    have "set (?sg[i := c]) \<subseteq> insert c (set ?sg)"
      by (rule set_update_subset_insert)
    then have nodot: "CHR ''.'' \<notin> set (?sg[i := c])"
      using False no_dot_token_sig [of secret data] by auto
    have asc: "is_ascii (?sg[i := c])"
      using \<open>set (?sg[i := c]) \<subseteq> insert c (set ?sg)\<close> a is_ascii_token_sig [of secret data]
      by (auto simp: is_ascii_set)
    have "?sg[i := c] \<noteq> ?sg"
      using i c len by (metis nth_list_update_eq)
    moreover have "rsplit1 CHR ''.'' ?t = [data, ?sg[i := c]]"
      using rsplit1_append [OF nodot, of data] by simp
    ultimately show ?thesis
      using asc is_ascii_token_sig [of secret data]
      by (simp add: verify_session_token_def compare_digest_def)
  next
    case True
    let ?d = "data @ CHR ''.'' # take i ?sg" and ?r = "drop (Suc i) ?sg"
    have upd: "?sg[i := c] = take i ?sg @ CHR ''.'' # ?r"
      using i len True by (simp add: upd_conv_take_nth_drop)
    have "set ?r \<subseteq> set ?sg"
      by (rule set_drop_subset)
    then have nodot: "CHR ''.'' \<notin> set ?r" and asc: "is_ascii ?r"
      using no_dot_token_sig [of secret data] is_ascii_token_sig [of secret data]
      by (auto simp: is_ascii_set)
    have "?t = ?d @ CHR ''.'' # ?r"
      by (simp add: upd)
    then have split: "rsplit1 CHR ''.'' ?t = [?d, ?r]"
      using rsplit1_append [OF nodot, of ?d] by simp
    have "length ?r \<noteq> length (token_sig secret ?d)"
      using i by (simp add: length_token_sig)
    then have "?r \<noteq> token_sig secret ?d"
      by (metis (no_types))
    then show ?thesis
      using split asc is_ascii_token_sig [of secret ?d] dot_t
      by (simp add: verify_session_token_def compare_digest_def del: append.simps)
  qed
qed

lemma verify_other_secret:
  "verify_session_token secret (Some (create_session_token other data))
     = Inr (token_sig other data = token_sig secret data)"
proof -
  have "rsplit1 CHR ''.'' (data @ CHR ''.'' # token_sig other data) = [data, token_sig other data]"
    by (rule rsplit1_append) (rule no_dot_token_sig)
  then show ?thesis
    by (simp add: verify_session_token_def create_session_token_def compare_digest_def
        is_ascii_token_sig)
qed

lemma verify_non_ascii_raises:
  "CHR ''.'' \<notin> set sg \<Longrightarrow> \<not> is_ascii sg \<Longrightarrow>
     verify_session_token secret (Some (data @ ''.'' @ sg)) = Inl TypeError"
  using rsplit1_append [of "CHR ''.''" sg data]
  by (simp add: verify_session_token_def compare_digest_def)

lemma verify_raises_TypeError:
  assumes "verify_session_token secret tok = Inl e"
  shows "e = TypeError"
proof -
  from assms obtain t where tok: "tok = Some t" and dot: "CHR ''.'' \<in> set t" and "t \<noteq> []"
    by (auto simp: verify_session_token_def split: option.splits if_splits)
  from rsplit1_parts [OF dot] obtain d sg where "rsplit1 CHR ''.'' t = [d, sg]"
    by blast
  with assms tok dot \<open>t \<noteq> []\<close> show ?thesis
    by (simp add: verify_session_token_def compare_digest_def split: if_splits)
qed

lemma serve_files_without_token:
  assumes "verify_session_token secret (get_session_token (cookies req)) \<noteq> Inr True"
  shows "serve_files cfg fs secret req = Inl TypeError \<or>
         serve_files cfg fs secret req =
           (if url_path req = ''/'' then Inr (FileResponse (login_html cfg))
            else Inr (Response ''Unauthorized'' 401))"
proof (cases "verify_session_token secret (get_session_token (cookies req))")
  case (Inl e)
  then have "e = TypeError"
    by (rule verify_raises_TypeError)
  with Inl show ?thesis
    by (simp add: serve_files_def)
next
  case (Inr b)
  with assms show ?thesis
    by (simp add: serve_files_def)
qed

subsection \<open>Normalized paths\<close>

lemma startswith_append: "startswith (p @ s) p"
  by (induction p) simp_all

lemma str_contains_prefix: "str_contains p (p @ s)"
proof (cases "p @ s")
  case Nil
  then show ?thesis by simp
next
  case (Cons a list)
  then have "startswith (a # list) p"
    by (metis startswith_append)
  with Cons show ?thesis by simp
qed

lemma str_join_hd:
  "nc \<noteq> [] \<Longrightarrow> \<exists>rest. str_join sep nc = hd nc @ rest"
proof (cases nc)
  case Nil
  assume "nc \<noteq> []"
  with Nil show ?thesis by simp
next
  case (Cons a l)
  then show ?thesis by (cases l) simp_all
qed

lemma norm_fold_climbs:
  "''..'' \<notin> set ords \<Longrightarrow> 0 < m \<or> climbs (length ords) comps \<Longrightarrow>
     foldl (norm_step 0) (replicate m ''..'' @ ords) comps \<noteq> [] \<and>
     hd (foldl (norm_step 0) (replicate m ''..'' @ ords) comps) = ''..''"
proof (induction comps arbitrary: m ords)
  case Nil
  then show ?case by (cases m) simp_all
next
  case (Cons c cs)
  show ?case
  proof (cases "c = [] \<or> c = ''.''")
    case True
    with Cons show ?thesis by (simp add: norm_step_def)
  next
    case skip: False
    show ?thesis
    proof (cases "c = ''..''")
      case False
      with skip have step: "norm_step 0 (replicate m ''..'' @ ords) c = replicate m ''..'' @ (ords @ [c])"
        by (simp add: norm_step_def)
      have "''..'' \<notin> set (ords @ [c])"
        using Cons.prems(1) False by simp
      moreover have "0 < m \<or> climbs (length (ords @ [c])) cs"
        using Cons.prems(2) skip False by simp
      ultimately show ?thesis
        using Cons.IH [of "ords @ [c]" m] step by simp
    next
      case dd: True
      show ?thesis
      proof (cases "ords = []")
        case True
        then have step: "norm_step 0 (replicate m ''..'' @ ords) c = replicate (Suc m) ''..'' @ []"
          using dd by (cases m) (simp_all add: norm_step_def replicate_append_same)
        show ?thesis
          using Cons.IH [of "[]" "Suc m"] step True by simp
      next
        case False
        then have "last (replicate m ''..'' @ ords) = last ords"
          by simp
        moreover have "last ords \<noteq> ''..''"
          using False Cons.prems(1) last_in_set by metis
        ultimately have step:
          "norm_step 0 (replicate m ''..'' @ ords) c = replicate m ''..'' @ butlast ords"
          using dd False by (simp add: norm_step_def butlast_append)
        have "''..'' \<notin> set (butlast ords)"
          using Cons.prems(1) in_set_butlastD by metis
        moreover have "0 < m \<or> climbs (length (butlast ords)) cs"
          using Cons.prems(2) dd False by simp
        ultimately show ?thesis
          using Cons.IH [of "butlast ords" m] step by simp
      qed
    qed
  qed
qed

lemma initial_slashes_lstrip: "initial_slashes (lstrip CHR ''/'' path) = 0"
proof -
  have "\<not> startswith (dropWhile (\<lambda>x. x = CHR ''/'') path) ''/''"
    by (induction path) simp_all
  then show ?thesis
    by (simp add: initial_slashes_def lstrip_def)
qed

lemma climbs_forbidden:
  assumes "climbs 0 (split_on CHR ''/'' (lstrip CHR ''/'' path))"
  shows "str_contains ''..'' (safe_path path)"
proof -
  let ?p = "lstrip CHR ''/'' path"
  let ?nc = "foldl (norm_step 0) [] (split_on CHR ''/'' ?p)"
  have "?p \<noteq> []"
    using assms by auto
  have nc: "?nc \<noteq> [] \<and> hd ?nc = ''..''"
    using norm_fold_climbs [of "[]" 0 "split_on CHR ''/'' ?p"] assms by simp
  then obtain rest where j: "str_join ''/'' ?nc = ''..'' @ rest"
    using str_join_hd [of ?nc "''/''"] by auto
  then have "normpath ?p = ''..'' @ rest"
    using \<open>?p \<noteq> []\<close> by (simp add: normpath_def initial_slashes_lstrip)
  then show ?thesis
    using str_contains_prefix [of "''..''" rest] by (simp add: safe_path_def)
qed

lemma safe_path_cancelled: "safe_path ''/a/../b'' = ''b''"
  by (simp add: safe_path_def normpath_def lstrip_def initial_slashes_def norm_step_def)

lemma safe_path_climbing: "safe_path ''/a/../../etc/passwd'' = ''../etc/passwd''"
  by (simp add: safe_path_def normpath_def lstrip_def initial_slashes_def norm_step_def)

lemma safe_path_root: "safe_path ''/'' = ''.''"
  by (simp add: safe_path_def normpath_def lstrip_def initial_slashes_def norm_step_def)

lemma safe_path_empty: "safe_path [] = ''.''"
  by (simp add: safe_path_def normpath_def lstrip_def initial_slashes_def norm_step_def)

lemma sort_example:
  "sort [''notes.txt'', ''pipe'', ''music'', ''b'', ''.env''] = [''.env'', ''b'', ''music'', ''notes.txt'', ''pipe'']"
  by code_simp

lemma root_listing:
  "resolve example_config example_fs ''/'' =
     Inr (HTMLResponse (listing_html ''/'' [''music''] [''b'', ''notes.txt'']))"
  by (simp add: resolve_def full_path_def safe_path_root path_join_def example_config_def example_fs_def
      listing_dirs_def listing_files_def sort_example)

subsection \<open>One digest, computed\<close>

text \<open>
  The rounds of a block, row by row of the constants, so that the simplifier can
  evaluate a digest.
\<close>

lemma rounds_append: "rounds (xs @ ys) ws = rounds ys (rounds xs ws)"
  by (induction xs ws rule: rounds.induct) simp_all

lemma compress_rows:
  "compress hs block = add_state hs (snd (rounds K256_7 (rounds K256_6 (rounds K256_5
     (rounds K256_4 (rounds K256_3 (rounds K256_2 (rounds K256_1 (rounds K256_0
       (words_of block, hs))))))))))"
  by (simp add: compress_def K256_def rounds_append)

lemma replicate_numeral: "replicate (numeral n) x = x # replicate (pred_numeral n) x"
  by (simp add: numeral_eq_Suc)

lemma add32_eval:
  "add32 x y =
     (if x + y < 4294967296 then x + y
      else if x + y < 8589934592 then x + y - 4294967296
      else (x + y) mod 4294967296)"
proof -
  have "s mod 4294967296 = s - 4294967296" if "4294967296 \<le> s" "s < 8589934592" for s :: nat
    using that by (simp add: le_mod_geq)
  then show ?thesis
    by (simp add: add32_def)
qed

lemmas sha_eval = sha256_def compress_rows pad_def hex_def hexdigit_def str_encode_def
  K256_0_def K256_1_def K256_2_def K256_3_def K256_4_def K256_5_def K256_6_def K256_7_def
  H256_def rotr_def Ch_def Maj_def bsig0_def bsig1_def ssig0_def ssig1_def
  bytes_of_u32_def next_w_def blocks.simps hmac_sha256_def hmac_key_def add32_eval not32_def
  utf8_char_def length_bytes_def replicate_numeral hmac_hexdigest_def

lemma hmac_example:
  "hmac_hexdigest (str_encode example_secret) (str_encode ''a.b'') =
     ''c8855c8b56b06f016197ab20c6772853147c31993c6b7117c1bce71d7959fb77''"
  unfolding example_secret_def by (simp add: sha_eval)

lemma token_sig_example: "token_sig example_secret ''a.b'' = ''c8855c8b56b06f01''"
  by (simp add: token_sig_def hmac_example)

lemma hmac_other_example:
  "hmac_hexdigest (str_encode other_secret) (str_encode ''a.b'') =
     ''1d57558e94d06921b101e8f99d7bf01a0edbadd23e77931d03c84d2e5fd5d7c6''"
  unfolding other_secret_def by (simp add: sha_eval)

lemma token_sig_other_example: "token_sig other_secret ''a.b'' = ''1d57558e94d06921''"
  by (simp add: token_sig_def hmac_other_example)

lemma serve_files_with_token:
  "serve_files example_config example_fs example_secret
     (example_request\<lparr>cookies := [''session'' \<mapsto> ''a.b.c8855c8b56b06f01'']\<rparr>)
   = Inr (HTMLResponse (listing_html ''/'' [''music''] [''b'', ''notes.txt'']))"
proof -
  have "create_session_token example_secret ''a.b'' = ''a.b.c8855c8b56b06f01''"
    by (simp add: create_session_token_def token_sig_example)
  then have "verify_session_token example_secret (Some ''a.b.c8855c8b56b06f01'') = Inr True"
    using verify_create [of example_secret "''a.b''"] by simp
  then show ?thesis
    by (simp add: serve_files_def get_session_token_def root_listing example_request_def)
qed

lemma signed_delivery_header:
  "sig_header signed_delivery = expected_signature example_config signed_delivery"
  by (simp add: sig_header_def expected_signature_def signed_delivery_def example_config_def
      hmac_example)

section \<open>Claims\<close>

text \<open>
  C2. Every token that \<open>create_session_token\<close> produces under a process secret is
  accepted by \<open>verify_session_token\<close> under the same secret, whatever the nonce.
\<close>

theorem verify_created_token:
  "verify_session_token secret (Some (create_session_token secret data)) = Inr True"
  by (rule verify_create)

text \<open>
  C10. The webhook handler starts the detached restart process exactly when it answers
  \<open>OK, restarting...\<close> (200). That answer is given only for a signature that compared
  equal, after the fetch completed without raising, the reset exited with code 0 and
  \<open>Popen\<close> did not raise; the effects are then the two git commands followed by the
  restart. So no failure outcome (a fetch that raises, a reset that exits non-zero, any
  exception, and equally every rejection before the signature check) leaves a spawned
  restart behind.
\<close>

theorem webhook_restart_only_on_success:
  "((\<exists>cmd. Spawn cmd \<in> set (snd (webhook cfg env req))) =
      (fst (webhook cfg env req) = Inr (Response ''OK, restarting...'' 200))) \<and>
   (fst (webhook cfg env req) = Inr (Response ''OK, restarting...'' 200) \<longrightarrow>
      compare_digest (sig_header req) (expected_signature cfg req) = Inr True \<and>
      git_fetch env = Inr () \<and> (\<exists>stderr. git_reset env = Inr (0, stderr)) \<and>
      popen env = Inr () \<and>
      snd (webhook cfg env req) =
        [Run (fetch_cmd cfg), Run (reset_cmd cfg), Spawn [start_script cfg]])"
  using redeploy_spawn [of cfg env] redeploy_ok [of cfg env]
  by (auto simp: webhook_def redeploy_def split: sum.splits bool.splits prod.splits)

lemma signed_delivery_ok:
  "fst (webhook example_config example_env signed_delivery)
     = Inr (Response ''OK, restarting...'' 200)"
proof -
  have "compare_digest (sig_header signed_delivery)
          (expected_signature example_config signed_delivery) = Inr True"
    using signed_delivery_header is_ascii_expected_signature [of example_config signed_delivery]
    by (simp add: compare_digest_def)
  moreover have "startswith (sig_header signed_delivery) ''sha256=''"
    by (simp add: sig_header_def signed_delivery_def)
  ultimately show ?thesis
    by (simp add: webhook_def redeploy_def example_config_def example_env_def
        example_secret_def)
qed

theorem webhook_restart_only_on_success_witness:
  "fst (webhook example_config example_env signed_delivery)
     = Inr (Response ''OK, restarting...'' 200) \<and>
   snd (webhook example_config example_env signed_delivery) =
     [Run [''git'', ''-C'', ''/repo'', ''fetch'', ''origin''],
      Run [''git'', ''-C'', ''/repo'', ''reset'', ''--hard'', ''origin/main''],
      Spawn [''/repo/cdn/start-cdn.sh'']] \<and>
   git_fetch example_env = Inr ()"
  using webhook_restart_only_on_success [of example_config example_env signed_delivery]
    signed_delivery_ok
  by (simp add: fetch_cmd_def reset_cmd_def start_script_def path_join_def example_config_def)

text \<open>
  C5, as the code has it. The handler checks in this order: (1) an empty secret or an
  empty repository directory gives \<open>Webhook not configured\<close> (500), whatever the
  header; (2) otherwise a header that is missing or does not start with \<open>sha256=\<close>
  gives \<open>Missing signature\<close> (401); (3) otherwise, for an ASCII header, the answer is
  \<open>Invalid signature\<close> (401) exactly when the header differs from \<open>sha256=\<close> followed
  by the hex HMAC-SHA256 of the raw body under the secret, and nothing is run; (4) when
  they are equal the handler's answer and effects are those of the redeploy.
\<close>

theorem webhook_stages:
  "(webhook_secret cfg = [] \<or> repo_dir cfg = [] \<longrightarrow>
      webhook cfg env req = (Inr (Response ''Webhook not configured'' 500), [])) \<and>
   (webhook_secret cfg \<noteq> [] \<and> repo_dir cfg \<noteq> [] \<and>
    \<not> startswith (sig_header req) ''sha256='' \<longrightarrow>
      webhook cfg env req = (Inr (Response ''Missing signature'' 401), [])) \<and>
   (webhook_secret cfg \<noteq> [] \<and> repo_dir cfg \<noteq> [] \<and>
    startswith (sig_header req) ''sha256='' \<and> is_ascii (sig_header req) \<longrightarrow>
      (fst (webhook cfg env req) = Inr (Response ''Invalid signature'' 401)
         \<longleftrightarrow> sig_header req \<noteq> expected_signature cfg req) \<and>
      (sig_header req \<noteq> expected_signature cfg req \<longrightarrow> snd (webhook cfg env req) = []) \<and>
      (sig_header req = expected_signature cfg req \<longrightarrow>
         webhook cfg env req = (Inr (fst (redeploy cfg env)), snd (redeploy cfg env))))"
proof -
  have cmp: "is_ascii (sig_header req) \<Longrightarrow>
      compare_digest (sig_header req) (expected_signature cfg req)
        = Inr (sig_header req = expected_signature cfg req)"
    by (simp add: compare_digest_def is_ascii_expected_signature)
  show ?thesis
    using redeploy_not_invalid [of cfg env]
    by (auto simp: webhook_def cmp compare_digest_refl)
qed

theorem webhook_stages_witness:
  "webhook (example_config\<lparr>webhook_secret := []\<rparr>) example_env signed_delivery
     = (Inr (Response ''Webhook not configured'' 500), []) \<and>
   webhook example_config example_env example_request
     = (Inr (Response ''Missing signature'' 401), []) \<and>
   webhook example_config example_env
       (signed_delivery\<lparr>headers := [''X-Hub-Signature-256'' \<mapsto> ''sha256=00'']\<rparr>)
     = (Inr (Response ''Invalid signature'' 401), []) \<and>
   webhook example_config example_env signed_delivery
     = (Inr (Response ''OK, restarting...'' 200),
        [Run [''git'', ''-C'', ''/repo'', ''fetch'', ''origin''],
         Run [''git'', ''-C'', ''/repo'', ''reset'', ''--hard'', ''origin/main''],
         Spawn [''/repo/cdn/start-cdn.sh'']])"
proof -
  let ?bad = "signed_delivery\<lparr>headers := [''X-Hub-Signature-256'' \<mapsto> ''sha256=00'']\<rparr>"
  have conf: "webhook_secret example_config \<noteq> [] \<and> repo_dir example_config \<noteq> []"
    by (simp add: example_config_def example_secret_def)
  have 1: "webhook_secret (example_config\<lparr>webhook_secret := []\<rparr>) = []"
    by simp
  have 2: "\<not> startswith (sig_header example_request) ''sha256=''"
    by (simp add: sig_header_def example_request_def)
  have 3: "startswith (sig_header ?bad) ''sha256='' \<and> is_ascii (sig_header ?bad)"
    by (simp add: sig_header_def is_ascii_def)
  have "length (sig_header ?bad) \<noteq> length (expected_signature example_config ?bad)"
    by (simp add: sig_header_def expected_signature_def length_hmac_hexdigest)
  then have ne: "sig_header ?bad \<noteq> expected_signature example_config ?bad"
    by auto
  have 4: "startswith (sig_header signed_delivery) ''sha256='' \<and>
      is_ascii (sig_header signed_delivery)"
    by (simp add: sig_header_def signed_delivery_def is_ascii_def)
  have r: "redeploy example_config example_env =
      (Response ''OK, restarting...'' 200,
       [Run [''git'', ''-C'', ''/repo'', ''fetch'', ''origin''],
        Run [''git'', ''-C'', ''/repo'', ''reset'', ''--hard'', ''origin/main''],
        Spawn [''/repo/cdn/start-cdn.sh'']])"
    by (simp add: redeploy_def example_env_def example_config_def fetch_cmd_def reset_cmd_def
        start_script_def path_join_def)
  show ?thesis
    using webhook_stages [of "example_config\<lparr>webhook_secret := []\<rparr>" example_env signed_delivery]
      webhook_stages [of example_config example_env example_request]
      webhook_stages [of example_config example_env ?bad]
      webhook_stages [of example_config example_env signed_delivery]
      conf 1 2 3 ne 4 r signed_delivery_header
    by (simp add: prod_eq_iff)
qed

text \<open>
  The claim as stated names only the secret in its first stage. With a secret set, an
  empty repository directory and no signature header, the handler answers
  \<open>Webhook not configured\<close> (500), not \<open>Missing signature\<close> (401).
\<close>

theorem webhook_stages_counterexample:
  "webhook_secret (example_config\<lparr>repo_dir := []\<rparr>) \<noteq> [] \<and>
   headers example_request ''X-Hub-Signature-256'' = None \<and>
   webhook (example_config\<lparr>repo_dir := []\<rparr>) example_env example_request
     = (Inr (Response ''Webhook not configured'' 500), [])"
  by (simp add: webhook_def example_config_def example_request_def example_secret_def)

text \<open>
  C1, as the code has it. \<open>resolve\<close> answers \<open>Forbidden\<close> (403), and so neither a
  file nor a listing, exactly for the paths whose normalized form (leading slashes
  stripped, then \<open>os.path.normpath\<close>) contains \<open>..\<close>. Every path that climbs above
  the sandbox root is among them.
\<close>

theorem resolve_forbidden:
  "(resolve cfg fs path = Inr (Response ''Forbidden'' 403)
      \<longleftrightarrow> str_contains ''..'' (safe_path path)) \<and>
   (climbs 0 (split_on CHR ''/'' (lstrip CHR ''/'' path)) \<longrightarrow>
      resolve cfg fs path = Inr (Response ''Forbidden'' 403))"
  using climbs_forbidden [of path]
  by (auto simp: resolve_def split: sum.splits)

theorem resolve_forbidden_witness:
  "resolve example_config example_fs ''/a/../../etc/passwd'' = Inr (Response ''Forbidden'' 403)
   \<and> safe_path ''/a/../../etc/passwd'' = ''../etc/passwd''"
proof -
  have "climbs 0 (split_on CHR ''/'' (lstrip CHR ''/'' ''/a/../../etc/passwd''))"
    by (simp add: lstrip_def)
  then show ?thesis
    using resolve_forbidden [of example_config example_fs "''/a/../../etc/passwd''"]
    by (simp add: safe_path_climbing)
qed

text \<open>
  The claim as stated fails: \<open>/a/../b\<close> contains \<open>../\<close>, but normalization cancels
  \<open>a/..\<close>, the check sees \<open>b\<close>, and the file \<open>/data/b\<close> is served.
\<close>

theorem resolve_forbidden_counterexample:
  "str_contains ''../'' ''/a/../b'' \<and>
   resolve example_config example_fs ''/a/../b'' = Inr (FileResponse ''/data/b'')"
  by (simp add: resolve_def full_path_def safe_path_cancelled path_join_def example_config_def example_fs_def)

text \<open>
  C7, as the code has it. When the resolved location is a directory that can be read,
  the answer is the listing page built from two lists: the directory's children that
  are directories, then those that are regular files, in both cases without the names
  that start with \<open>.\<close>, each list sorted by name. A child that is neither a directory
  nor a regular file is in neither list. The empty path and \<open>/\<close> resolve to the root
  joined with \<open>.\<close>, which names the sandbox root itself.
\<close>

theorem listing_contents:
  assumes "\<not> str_contains ''..'' (safe_path path)"
    and "isdir fs (full_path cfg path)"
    and "listdir fs (full_path cfg path) = Inr names"
  shows "resolve cfg fs path =
           Inr (HTMLResponse (listing_html path
                  (listing_dirs fs (full_path cfg path) names)
                  (listing_files fs (full_path cfg path) names))) \<and>
         sorted (listing_dirs fs (full_path cfg path) names) \<and>
         sorted (listing_files fs (full_path cfg path) names) \<and>
         set (listing_dirs fs (full_path cfg path) names) =
           {e \<in> set names. isdir fs (path_join (full_path cfg path) e) \<and> \<not> startswith e ''.''} \<and>
         set (listing_files fs (full_path cfg path) names) =
           {e \<in> set names. isfile fs (path_join (full_path cfg path) e) \<and> \<not> startswith e ''.''} \<and>
         (distinct names \<longrightarrow> distinct (listing_dirs fs (full_path cfg path) names) \<and>
            distinct (listing_files fs (full_path cfg path) names)) \<and>
         full_path cfg [] = path_join (data_dir cfg) ''.'' \<and>
         full_path cfg ''/'' = path_join (data_dir cfg) ''.''"
  using assms
  by (auto simp: resolve_def listing_dirs_def listing_files_def sorted_filter [where f = "\<lambda>x. x", simplified] full_path_def safe_path_root safe_path_empty)

theorem listing_contents_witness:
  "resolve example_config example_fs ''/'' =
     Inr (HTMLResponse (listing_html ''/'' [''music''] [''b'', ''notes.txt''])) \<and>
   sorted [''music''] \<and> sorted [''b'', ''notes.txt'']"
proof -
  have fp: "full_path example_config ''/'' = ''/data/.''"
    by (simp add: full_path_def safe_path_root path_join_def example_config_def)
  have "\<not> str_contains ''..'' (safe_path ''/'')"
    by (simp add: safe_path_root)
  moreover have "isdir example_fs (full_path example_config ''/'')"
    by (simp add: fp example_fs_def)
  moreover have "listdir example_fs (full_path example_config ''/'')
      = Inr [''notes.txt'', ''pipe'', ''music'', ''b'', ''.env'']"
    by (simp add: fp example_fs_def)
  moreover have "listing_dirs example_fs ''/data/.'' [''notes.txt'', ''pipe'', ''music'', ''b'', ''.env''] = [''music'']"
    by (simp add: listing_dirs_def sort_example example_fs_def path_join_def)
  moreover have "listing_files example_fs ''/data/.'' [''notes.txt'', ''pipe'', ''music'', ''b'', ''.env''] = [''b'', ''notes.txt'']"
    by (simp add: listing_files_def sort_example example_fs_def path_join_def)
  ultimately show ?thesis
    using listing_contents [of "''/''" example_fs example_config
        "[''notes.txt'', ''pipe'', ''music'', ''b'', ''.env'']"]
    by (simp add: fp)
qed

text \<open>
  The claim as stated fails on a child that is neither a directory nor a regular file:
  \<open>pipe\<close> is an immediate child of the root, its name does not start with \<open>.\<close>, and
  the listing leaves it out.
\<close>

theorem listing_contents_counterexample:
  "listdir example_fs (full_path example_config ''/'') =
     Inr [''notes.txt'', ''pipe'', ''music'', ''b'', ''.env''] \<and>
   \<not> startswith ''pipe'' ''.'' \<and>
   resolve example_config example_fs ''/'' =
     Inr (HTMLResponse (listing_html ''/'' [''music''] [''b'', ''notes.txt''])) \<and>
   ''pipe'' \<notin> set [''music''] \<union> set [''b'', ''notes.txt'']"
proof -
  have "full_path example_config ''/'' = ''/data/.''"
    by (simp add: full_path_def safe_path_root path_join_def example_config_def)
  then have "listdir example_fs (full_path example_config ''/'') =
      Inr [''notes.txt'', ''pipe'', ''music'', ''b'', ''.env'']"
    by (simp add: example_fs_def)
  then show ?thesis
    using root_listing by simp
qed

text \<open>
  C3, as the code has it. \<open>verify_session_token\<close> returns true exactly for the tokens
  \<open>data.sig\<close> in which \<open>sig\<close>, the part after the last dot, is the first 16 hex
  digits of the HMAC-SHA256 of \<open>data\<close>, the part before the last dot, under the
  process secret: the tokens \<open>create_session_token\<close> builds from some \<open>data\<close>. The
  data may itself contain dots. For every other token it returns false or raises.
\<close>

theorem verify_iff_created:
  "verify_session_token secret tok = Inr True
     \<longleftrightarrow> (\<exists>data. tok = Some (create_session_token secret data))"
  using verify_True_created [of secret tok] verify_create [of secret] by auto

text \<open>
  The claim as stated fails: a token with two dots, whose last part signs everything
  before the last dot, is accepted.
\<close>

theorem verify_iff_created_counterexample:
  "verify_session_token example_secret (Some ''a.b.c8855c8b56b06f01'') = Inr True \<and>
   split_on CHR ''.'' ''a.b.c8855c8b56b06f01'' = [''a'', ''b'', ''c8855c8b56b06f01'']"
proof -
  have "create_session_token example_secret ''a.b'' = ''a.b.c8855c8b56b06f01''"
    by (simp add: create_session_token_def token_sig_example)
  then show ?thesis
    using verify_create [of example_secret "''a.b''"] by simp
qed

text \<open>
  Where \<open>verify_session_token\<close> does fail closed: it returns false, raising nothing,
  for an absent token, for the empty string, for every string without a dot, and for
  every issued token in which one character of the signature is replaced by a
  different ASCII character. For a token issued under another secret it returns
  whether the two secrets give the token's data the same 16-digit signature: false
  whenever the signatures differ.
\<close>

lemma verify_returns_false:
  "verify_session_token secret None = Inr False \<and>
   verify_session_token secret (Some []) = Inr False \<and>
   (CHR ''.'' \<notin> set t \<longrightarrow> verify_session_token secret (Some t) = Inr False) \<and>
   (i < 16 \<and> c \<noteq> token_sig secret data ! i \<and> of_char c < (128::nat) \<longrightarrow>
      verify_session_token secret
        (Some (data @ ''.'' @ (token_sig secret data)[i := c])) = Inr False) \<and>
   verify_session_token secret (Some (create_session_token other data))
     = Inr (token_sig other data = token_sig secret data)"
  using verify_no_dot [of t secret] verify_altered_sig [of i c secret data]
    verify_other_secret [of secret other data]
  by (simp add: verify_session_token_def)

lemma verify_returns_false_examples:
  "verify_session_token example_secret (Some ''abc'') = Inr False \<and>
   verify_session_token example_secret (Some ''a.b.x8855c8b56b06f01'') = Inr False \<and>
   create_session_token other_secret ''a.b'' = ''a.b.1d57558e94d06921'' \<and>
   verify_session_token example_secret (Some ''a.b.1d57558e94d06921'') = Inr False"
  using verify_returns_false [of example_secret "''abc''" 0 "CHR ''x''" "''a.b''" other_secret]
    token_sig_example token_sig_other_example
  by (simp add: create_session_token_def)

text \<open>
  C4 at a failing input. Under \<open>example_secret\<close> the token issued for the data \<open>a.b\<close>
  is \<open>a.b.c8855c8b56b06f01\<close>. With the first character of its signature altered to
  U+00E9, \<open>verify_session_token\<close> does not return false: the comparison raises
  \<open>TypeError\<close>, and the exception reaches the caller.
\<close>

theorem altered_signature_raises:
  "create_session_token example_secret ''a.b'' = ''a.b.c8855c8b56b06f01'' \<and>
   verify_session_token example_secret (Some (''a.b.'' @ CHR 0xE9 # ''8855c8b56b06f01''))
     = Inl TypeError"
proof -
  have "create_session_token example_secret ''a.b'' = ''a.b.c8855c8b56b06f01''"
    by (simp add: create_session_token_def token_sig_example)
  moreover have "verify_session_token example_secret
      (Some (''a.b'' @ ''.'' @ CHR 0xE9 # ''8855c8b56b06f01'')) = Inl TypeError"
    by (rule verify_non_ascii_raises) (simp_all add: is_ascii_def)
  ultimately show ?thesis
    by simp
qed

text \<open>
  C6 at a failing input. A request for \<open>/notes.txt\<close> whose session cookie is \<open>a.\<close>
  followed by the character U+00E9 presents no token that \<open>verify_session_token\<close>
  accepts; the comparison raises \<open>TypeError\<close>, and the handler passes the exception on
  instead of answering 401.
\<close>

theorem non_ascii_cookie_raises:
  "serve_files cfg fs secret
     (example_request\<lparr>url_path := ''/notes.txt'',
                       cookies := [''session'' \<mapsto> ''a.'' @ [CHR 0xE9]]\<rparr>) = Inl TypeError"
  using verify_non_ascii_raises [of "[CHR 0xE9]" secret "''a''"]
  by (simp add: serve_files_def get_session_token_def is_ascii_def)

text \<open>
  C9, as the code has it. For a login request whose body does not parse, parses to a
  JSON value that is no object, or parses to an object without a \<open>hash\<close> key, the
  handler compares the empty string with the configured password hash. When that
  hash is ASCII, the request is answered 401 without a cookie unless the hash is
  empty, in which case it succeeds and the session cookie is set.
\<close>

theorem login_without_hash:
  assumes "json_body req = None \<or>
           (\<exists>v. json_body req = Some v \<and> (\<forall>kvs. v \<noteq> JObject kvs)) \<or>
           (\<exists>kvs. json_body req = Some (JObject kvs) \<and> ''hash'' \<notin> fst ` set kvs)"
  shows "received_hash (json_body req) = JString [] \<and>
         (is_ascii (password_hash cfg) \<longrightarrow>
            login cfg secret nonce req =
              (if password_hash cfg = []
               then Inr (JSONResponse True 200
                      (Some (session_cookie (create_session_token secret nonce))))
               else Inr (JSONResponse False 401 None)))"
proof -
  have "map_of (rev kvs) ''hash'' = None" if "''hash'' \<notin> fst ` set kvs" for kvs :: "(string \<times> json) list"
    using that by (simp add: map_of_eq_None_iff)
  then have r: "received_hash (json_body req) = JString []"
    using assms
    by (auto simp: received_hash_def split: option.splits json.splits)
  then show ?thesis
    by (auto simp: login_def compare_digest_json_def compare_digest_def is_ascii_def)
qed

theorem login_without_hash_witness:
  "login example_config example_secret ''00112233445566778899aabbccddeeff'' example_request
     = Inr (JSONResponse False 401 None) \<and>
   login example_config example_secret ''00112233445566778899aabbccddeeff''
       (example_request\<lparr>json_body := Some (JArray [])\<rparr>)
     = Inr (JSONResponse False 401 None) \<and>
   login (example_config\<lparr>password_hash := []\<rparr>) example_secret
       ''00112233445566778899aabbccddeeff''
       (example_request\<lparr>json_body := Some (JObject [(''user'', JString ''x'')])\<rparr>)
     = Inr (JSONResponse True 200
         (Some (session_cookie
            (create_session_token example_secret ''00112233445566778899aabbccddeeff''))))"
  using login_without_hash [of example_request example_config example_secret
      "''00112233445566778899aabbccddeeff''"]
    login_without_hash [of "example_request\<lparr>json_body := Some (JArray [])\<rparr>" example_config
      example_secret "''00112233445566778899aabbccddeeff''"]
    login_without_hash
      [of "example_request\<lparr>json_body := Some (JObject [(''user'', JString ''x'')])\<rparr>"
        "example_config\<lparr>password_hash := []\<rparr>" example_secret
        "''00112233445566778899aabbccddeeff''"]
  by (simp add: example_request_def example_config_def is_ascii_def)

text \<open>
  The claim as stated fails for a configured password hash with a non-ASCII character:
  the comparison raises \<open>TypeError\<close>, and the request is answered neither 401 nor
  with a cookie.
\<close>

theorem login_without_hash_counterexample:
  "json_body example_request = None \<and>
   password_hash (example_config\<lparr>password_hash := [CHR 0xE9]\<rparr>) \<noteq> [] \<and>
   login (example_config\<lparr>password_hash := [CHR 0xE9]\<rparr>) example_secret
     ''00112233445566778899aabbccddeeff'' example_request = Inl TypeError"
  by (simp add: login_def received_hash_def compare_digest_json_def compare_digest_def
      is_ascii_def example_request_def)

end
